theory Spec2Isabelle
  imports Main "HOL-Library.Word"
begin

unbundle bit_operations_syntax

section \<open>Basic types\<close>

text \<open>
  Go's \<open>byte\<close> is an 8-bit word and \<open>type PeerName uint64\<close> (peername.go) a 64-bit word.
  A Go \<open>string\<close> is a sequence of bytes, here a \<open>string\<close> (a list of 8-bit characters).
  A slice that the code tests against \<open>nil\<close> is an \<open>option\<close> of a list: \<open>None\<close> is the
  nil slice, \<open>Some []\<close> the empty one.
\<close>

type_synonym byte = "8 word"
type_synonym PeerName = "64 word"

text \<open>A Go \<open>error\<close> value, by its message; the nil error is \<open>None :: error option\<close>.\<close>

datatype error = Error string

section \<open>The broadcast payload container (receiver.go, type gd)\<close>

text \<open>\<open>type gd []byte\<close>.\<close>

type_synonym gd = "byte list"

text \<open>
  \<open>mesh.GossipData\<close> is an interface with the methods \<open>Encode\<close> and \<open>Merge\<close>. A value of
  it is either a \<open>gd\<close> of this package or some other implementation, which \<open>Merge\<close> below
  only ever asks for its \<open>Encode()\<close>: it is represented by the chunks that call returns.
\<close>

datatype GossipData = GD gd | Foreign "byte list list"

text \<open>\<open>func (g gd) Encode() [][]byte { return [][]byte{g} }\<close>\<close>

definition gd_Encode :: "gd \<Rightarrow> byte list list" where
  "gd_Encode g = [g]"

text \<open>Dynamic dispatch of \<open>o.Encode()\<close> on an interface value.\<close>

fun Encode :: "GossipData \<Rightarrow> byte list list" where
  "Encode (GD g) = gd_Encode g"
| "Encode (Foreign chunks) = chunks"

text \<open>The builtins \<open>make([]byte, n)\<close> and \<open>copy(dst, src)\<close>; \<open>copy\<close> overwrites the first
  \<open>min (len dst) (len src)\<close> elements of \<open>dst\<close>.\<close>

definition make_bytes :: "nat \<Rightarrow> byte list" where
  "make_bytes n = replicate n 0"

definition copy :: "'a list \<Rightarrow> 'a list \<Rightarrow> 'a list" where
  "copy dst src = take (min (length dst) (length src)) src @ drop (min (length dst) (length src)) dst"

text \<open>The loop \<open>for _, bs := range o.Encode() { r = append(r, bs...) }\<close> of \<open>Merge\<close>.\<close>

fun flatten_into :: "byte list \<Rightarrow> byte list list \<Rightarrow> byte list" where
  "flatten_into r [] = r"
| "flatten_into r (bs # rest) = flatten_into (r @ bs) rest"

text \<open>
  \<^verbatim>\<open>
  func (g gd) Merge(o mesh.GossipData) mesh.GossipData {
          r := make([]byte, len(g))
          copy(r, g)
          for _, bs := range o.Encode() { r = append(r, bs...) }
          return gd(r)
  }
  \<close>
\<close>

definition Merge :: "gd \<Rightarrow> GossipData \<Rightarrow> GossipData" where
  "Merge g other = (let r = make_bytes (length g); r = copy r g in GD (flatten_into r (Encode other)))"

section \<open>Standard-library functions the code calls\<close>

text \<open>
  A run-time panic of Go is the left summand of a result: every function below that
  can panic returns \<open>panic + 'a\<close>.
\<close>

datatype panic = IndexOutOfRange | NilDereference

text \<open>
  \<open>encoding/binary\<close>: \<open>BigEndian.Uint64(b)\<close> and \<open>LittleEndian.Uint64(b)\<close> read
  \<open>b[0]\<close> to \<open>b[7]\<close>; both start with the bounds check \<open>_ = b[7]\<close>, which panics
  on a shorter slice.
\<close>

definition BigEndian_Uint64 :: "byte list \<Rightarrow> panic + 64 word" where
  "BigEndian_Uint64 b =
     (if length b < 8 then Inl IndexOutOfRange
      else Inr (ucast (b ! 7) OR push_bit 8 (ucast (b ! 6)) OR push_bit 16 (ucast (b ! 5))
        OR push_bit 24 (ucast (b ! 4)) OR push_bit 32 (ucast (b ! 3)) OR push_bit 40 (ucast (b ! 2))
        OR push_bit 48 (ucast (b ! 1)) OR push_bit 56 (ucast (b ! 0))))"

definition LittleEndian_Uint64 :: "byte list \<Rightarrow> panic + 64 word" where
  "LittleEndian_Uint64 b =
     (if length b < 8 then Inl IndexOutOfRange
      else Inr (ucast (b ! 0) OR push_bit 8 (ucast (b ! 1)) OR push_bit 16 (ucast (b ! 2))
        OR push_bit 24 (ucast (b ! 3)) OR push_bit 32 (ucast (b ! 4)) OR push_bit 40 (ucast (b ! 5))
        OR push_bit 48 (ucast (b ! 6)) OR push_bit 56 (ucast (b ! 7))))"

text \<open>
  \<open>crypto/sha512\<close>: \<open>Sum512\<close> returns a \<open>[64]byte\<close>. The hash function itself is a
  parameter \<open>sha\<close> of the model, from messages to 512-bit digests; the array holds the
  digest's bytes, the most significant one first.
\<close>

definition Sum512 :: "(byte list \<Rightarrow> 512 word) \<Rightarrow> byte list \<Rightarrow> byte list" where
  "Sum512 sha m = map (\<lambda>i. ucast (drop_bit (8 * (63 - i)) (sha m))) [0..<64]"

text \<open>The conversion \<open>[]byte(s)\<close> of a string.\<close>

definition bytes_of :: "string \<Rightarrow> byte list" where
  "bytes_of s = map (\<lambda>c. word_of_nat (of_char c)) s"

text \<open>
  \<open>net\<close>: \<open>type HardwareAddr []byte\<close>, and its \<open>String()\<close>: the empty string for an
  empty address, else two lowercase hex digits per byte, the bytes separated by colons.
  \<^verbatim>\<open>
  buf := make([]byte, 0, len(a)*3-1)
  for i, b := range a {
          if i > 0 { buf = append(buf, ':') }
          buf = append(buf, hexDigit[b>>4])
          buf = append(buf, hexDigit[b&0xF])
  }
  \<close>
\<close>

definition hexDigit :: string where
  "hexDigit = ''0123456789abcdef''"

fun HardwareAddr_loop :: "nat \<Rightarrow> byte list \<Rightarrow> string \<Rightarrow> string" where
  "HardwareAddr_loop i [] buf = buf"
| "HardwareAddr_loop i (b # a) buf =
     (let buf = (if i > 0 then buf @ [CHR '':''] else buf);
          buf = buf @ [hexDigit ! unat (drop_bit 4 b)];
          buf = buf @ [hexDigit ! unat (b AND 0xF)]
      in HardwareAddr_loop (Suc i) a buf)"

definition HardwareAddr_String :: "byte list \<Rightarrow> string" where
  "HardwareAddr_String a = (if length a = 0 then [] else HardwareAddr_loop 0 a [])"

section \<open>The transport's peer names (vendored mesh package)\<close>

text \<open>\<open>mesh.PeerName\<close> is an unsigned 64-bit integer as well; the conversions
  \<open>PeerName(pn)\<close> and \<open>mesh.PeerName(n)\<close> between the two types are the identity.\<close>

type_synonym mesh_PeerName = "64 word"

text \<open>Modelled from the spec: the parts of the parser and of the renderer of identities
  (spec 4.1 and 6), which the vendored package holds and the sources do not. First, the
  value of a hex digit, of either case.\<close>

definition hex_value :: "char \<Rightarrow> nat option" where
  "hex_value c =
     (let n = of_char c :: nat in
      if 48 \<le> n \<and> n \<le> 57 then Some (n - 48)
      else if 97 \<le> n \<and> n \<le> 102 then Some (n - 87)
      else if 65 \<le> n \<and> n \<le> 70 then Some (n - 55)
      else None)"

text \<open>Modelled from the spec: one group of the text; one or two hex digits give a byte,
  anything else is malformed (wrong digit count, or a character that is no hex digit).\<close>

fun parse_octet :: "string \<Rightarrow> byte option" where
  "parse_octet [c] = map_option word_of_nat (hex_value c)"
| "parse_octet [c, d] =
     (case (hex_value c, hex_value d) of
        (Some h, Some l) \<Rightarrow> Some (word_of_nat (16 * h + l))
      | _ \<Rightarrow> None)"
| "parse_octet _ = None"

fun parse_octets :: "string list \<Rightarrow> byte list option" where
  "parse_octets [] = Some []"
| "parse_octets (g # gs) =
     (case parse_octet g of
        None \<Rightarrow> None
      | Some b \<Rightarrow> map_option (Cons b) (parse_octets gs))"

text \<open>Modelled from the spec: the groups of a text between its colons; a text with one
  colon has two groups, the empty text has one (empty) group.\<close>

fun split_colon :: "string \<Rightarrow> string list" where
  "split_colon [] = [[]]"
| "split_colon (c # cs) =
     (if c = CHR '':'' then [] # split_colon cs
      else (case split_colon cs of g # gs \<Rightarrow> (c # g) # gs | [] \<Rightarrow> [[c]]))"

text \<open>Modelled from the spec: the first double colon of a text (the elision), with what
  stands before and after it, and the groups of such a part.\<close>

fun find_elision :: "string \<Rightarrow> (string \<times> string) option" where
  "find_elision (c # d # cs) =
     (if c = CHR '':'' \<and> d = CHR '':'' then Some ([], cs)
      else map_option (\<lambda>(l, r). (c # l, r)) (find_elision (d # cs)))"
| "find_elision _ = None"

definition groups_of :: "string \<Rightarrow> string list" where
  "groups_of part = (if part = [] then [] else split_colon part)"

text \<open>Modelled from the spec: up to six bytes as an integer, the first byte the most
  significant.\<close>

definition macint :: "byte list \<Rightarrow> 64 word" where
  "macint mac = foldl (\<lambda>r b. push_bit 8 r OR ucast b) 0 mac"

text \<open>
  Modelled from the spec: \<open>mesh.PeerNameFromString\<close> of the vendored transport package,
  which is not among the sources (spec 4.1, IdentityFromHexColonString, and 6): it parses
  a colon-separated sequence of hex octets; a double colon elides contiguous zero groups
  as in IPv6 addresses; a text without elision has exactly six groups; it produces at
  most 6 significant bytes and fails with a parse error on malformed input (wrong digit
  count, too many groups, non-hex characters).
\<close>

definition PeerNameFromString :: "string \<Rightarrow> mesh_PeerName \<times> error option" where
  "PeerNameFromString nameStr =
     (let bad = (0, Some (Error (''invalid peer name format: '' @ nameStr))) in
      case find_elision nameStr of
        None \<Rightarrow>
          (case parse_octets (split_colon nameStr) of
             Some bs \<Rightarrow> if length bs = 6 then (macint bs, None) else bad
           | None \<Rightarrow> bad)
      | Some (l, r) \<Rightarrow>
          (case (parse_octets (groups_of l), parse_octets (groups_of r)) of
             (Some ls, Some rs) \<Rightarrow>
               if length ls + length rs < 6
               then (macint (ls @ replicate (6 - (length ls + length rs)) 0 @ rs), None)
               else bad
           | _ \<Rightarrow> bad))"

text \<open>Modelled from the spec: the six significant bytes of an identity, the most
  significant first.\<close>

definition intmac :: "64 word \<Rightarrow> byte list" where
  "intmac key = map (\<lambda>i. ucast (drop_bit (8 * (5 - i)) key)) [0..<6]"

text \<open>
  Modelled from the spec: \<open>mesh.PeerName.String\<close> of the vendored transport package
  (spec 4.1, ToCanonicalString): it renders an identity as six colon-separated lowercase
  hex octets.
\<close>

definition mesh_PeerName_String :: "mesh_PeerName \<Rightarrow> string" where
  "mesh_PeerName_String name = HardwareAddr_String (intmac name)"

section \<open>The naming scheme (peername.go)\<close>

text \<open>
  \<^verbatim>\<open>
  func PeerNameFromStringHash(s string) PeerName {
          h := sha512.Sum512([]byte(s))
          return PeerName(binary.LittleEndian.Uint64(h[:8]))
  }
  \<close>
\<close>

definition PeerNameFromStringHash :: "(byte list \<Rightarrow> 512 word) \<Rightarrow> string \<Rightarrow> panic + PeerName" where
  "PeerNameFromStringHash sha s =
     (let h = Sum512 sha (bytes_of s) in LittleEndian_Uint64 (take 8 h))"

text \<open>
  \<^verbatim>\<open>
  func PeerNameFromMACAddr(a string) (PeerName, error) {
          pn, err := mesh.PeerNameFromString(a)
          return PeerName(pn), err
  }
  \<close>
\<close>

definition PeerNameFromMACAddr :: "string \<Rightarrow> PeerName \<times> error option" where
  "PeerNameFromMACAddr a = (let (pn, err) = PeerNameFromString a in (pn, err))"

text \<open>
  \<^verbatim>\<open>
  func PeerNameFromHardwareAddr(h net.HardwareAddr) (PeerName, error) {
          if 8 == len(h) {
                  return PeerName(binary.BigEndian.Uint64(h)), nil
          } else if 8 > len(h) {
                  return PeerNameFromMACAddr(h.String())
          } else {
                  return PeerNameFromStringHash(h.String()), nil
          }
  }
  \<close>
\<close>

definition PeerNameFromHardwareAddr ::
  "(byte list \<Rightarrow> 512 word) \<Rightarrow> byte list \<Rightarrow> panic + (PeerName \<times> error option)" where
  "PeerNameFromHardwareAddr sha h =
     (if 8 = length h then
        (case BigEndian_Uint64 h of Inl p \<Rightarrow> Inl p | Inr n \<Rightarrow> Inr (n, None))
      else if 8 > length h then Inr (PeerNameFromMACAddr (HardwareAddr_String h))
      else
        (case PeerNameFromStringHash sha (HardwareAddr_String h) of
           Inl p \<Rightarrow> Inl p
         | Inr n \<Rightarrow> Inr (n, None)))"

text \<open>\<open>func (n PeerName) String() string { return mesh.PeerName(n).String() }\<close>\<close>

definition PeerName_String :: "PeerName \<Rightarrow> string" where
  "PeerName_String n = mesh_PeerName_String n"

text \<open>
  \<^verbatim>\<open>
  func UnStringPeerName(s string) (PeerName, error) {
          pn, err := mesh.PeerNameFromString(s)
          return PeerName(pn), err
  }
  \<close>
\<close>

definition UnStringPeerName :: "string \<Rightarrow> PeerName \<times> error option" where
  "UnStringPeerName s = (let (pn, err) = PeerNameFromString s in (pn, err))"

section \<open>The textual form of identities (spec 6)\<close>

text \<open>
  The well-formed six-octet texts: six groups between colons, each group one or two
  lowercase hex digits.
\<close>

definition lower_hex_digit :: "char \<Rightarrow> bool" where
  "lower_hex_digit c =
     (let n = of_char c :: nat in (48 \<le> n \<and> n \<le> 57) \<or> (97 \<le> n \<and> n \<le> 102))"

definition octet_text :: "string \<Rightarrow> bool" where
  "octet_text g = ((length g = 1 \<or> length g = 2) \<and> list_all lower_hex_digit g)"

definition six_octets :: "string \<Rightarrow> bool" where
  "six_octets x = (length (split_colon x) = 6 \<and> list_all octet_text (split_colon x))"

text \<open>The canonical form of such a text: every group written with two digits.\<close>

fun canonical_group :: "string \<Rightarrow> string" where
  "canonical_group [c] = [CHR ''0'', c]"
| "canonical_group g = g"

fun join_colon :: "string list \<Rightarrow> string" where
  "join_colon [] = []"
| "join_colon [g] = g"
| "join_colon (g # gs) = g @ CHR '':'' # join_colon gs"

definition canonicalForm :: "string \<Rightarrow> string" where
  "canonicalForm x = join_colon (map canonical_group (split_colon x))"

text \<open>The two hex digits that the rendering loop appends for one byte.\<close>

definition render_byte :: "byte \<Rightarrow> string" where
  "render_byte b = [hexDigit ! unat (drop_bit 4 b), hexDigit ! unat (b AND 0xF)]"

section \<open>The transport collaborator (vendored mesh package)\<close>

text \<open>
  References to heap objects (\<open>*Peer\<close>, \<open>*mesh.Router\<close>) and to variables of a struct
  type are addresses into the stores of the state below. A pointer that the code leaves
  nil somewhere is an \<open>option\<close> of an address, and going through it when it is \<open>None\<close>
  is the panic \<open>NilDereference\<close>; the receiver \<open>p\<close> of the methods of \<open>*Peer\<close> and the
  field \<open>p\<close> of the one \<open>receiver\<close> that \<open>New\<close> builds are the address of a peer.
\<close>

type_synonym ptr = nat

text \<open>The logging sink handed to the transport: an interface value, opaque here.\<close>

datatype Logger = Logger nat

text \<open>
  \<open>*net.TCPAddr\<close>: the code only calls \<open>String()\<close> on it, so an address is represented
  by the text that call returns; the method renders a nil pointer as \<open><nil>\<close>.
\<close>

datatype TCPAddr = TCPAddr string

fun TCPAddr_String :: "TCPAddr option \<Rightarrow> string" where
  "TCPAddr_String None = ''<nil>''"
| "TCPAddr_String (Some (TCPAddr s)) = s"

text \<open>\<open>mesh.Config\<close>, with the fields that the struct literal in \<open>New\<close> sets.\<close>

record mesh_Config =
  mesh_Host :: string
  mesh_Port :: int
  mesh_ProtocolMinVersion :: byte
  mesh_Password :: "byte list"
  mesh_ConnLimit :: int
  mesh_PeerDiscovery :: bool
  mesh_TrustedSubnets :: "unit list"

text \<open>Modelled from the spec: \<open>mesh.PeerDescription\<close>, an entry of the membership view: an
  identity and its nickname (spec 3 and 6).\<close>

record PeerDescription =
  pd_Name :: mesh_PeerName
  pd_NickName :: string

text \<open>\<open>type receiver struct { p *Peer }\<close> (receiver.go).\<close>

record receiver =
  receiver_p :: ptr

text \<open>
  Modelled from the spec: the transport handle \<open>mesh.Router\<close> of the vendored package
  (spec 6, the transport collaborator contract). It is created from the host
  configuration, the identity, the nickname and the logging sink; it can be told to
  start listening; receive hooks are registered on named channels; connections are
  initiated to lists of addresses; and it answers with its current membership view, an
  ordered collection of (identity, nickname) pairs.
\<close>

record mesh_Router =
  Router_Config :: mesh_Config
  Ourself :: mesh_PeerName
  Ourself_NickName :: string
  Router_Logger :: Logger
  Channels :: "(string \<times> receiver) list"
  Listening :: bool
  Targets :: "string list"
  Descriptions :: "PeerDescription list"

text \<open>Modelled from the spec: \<open>mesh.NewRouter\<close>, spec 6 \<open>create(hostConfig)\<close>; the new
  handle has no channel, does not listen, has no connection target and knows no peer.\<close>

definition NewRouter :: "mesh_Config \<Rightarrow> mesh_PeerName \<Rightarrow> string \<Rightarrow> Logger \<Rightarrow> mesh_Router" where
  "NewRouter config name nickName logger =
     \<lparr>Router_Config = config, Ourself = name, Ourself_NickName = nickName,
      Router_Logger = logger, Channels = [], Listening = False, Targets = [],
      Descriptions = []\<rparr>"

text \<open>Modelled from the spec: the send endpoint \<open>mesh.Gossip\<close> of a channel (spec 6), known
  by its router and the channel's name.\<close>

datatype Gossip = Gossip ptr string

text \<open>Modelled from the spec: \<open>Router.NewGossip\<close>, spec 6 \<open>registerChannel(name,
  receiveHook)\<close>; the send endpoint it returns is built by the caller from the router's
  address.\<close>

definition NewGossip :: "string \<Rightarrow> receiver \<Rightarrow> mesh_Router \<Rightarrow> mesh_Router" where
  "NewGossip channelName g router = router\<lparr>Channels := Channels router @ [(channelName, g)]\<rparr>"

text \<open>Modelled from the spec: \<open>Router.Start\<close>, spec 6 \<open>startListening()\<close>.\<close>

definition Start :: "mesh_Router \<Rightarrow> mesh_Router" where
  "Start router = router\<lparr>Listening := True\<rparr>"

text \<open>
  Modelled from the spec: \<open>ConnectionMaker.InitiateConnections\<close>, spec 6
  \<open>initiateConnections(addressList, replaceExisting) \<rightarrow> perAddressErrorList\<close> and spec
  4.4 step 7: every address is attempted, a failure adds its error to the list without
  aborting, a success adds the address to the targets. The outcome of the attempt on
  one address is the parameter \<open>dial\<close>.
\<close>

fun attempt_all :: "(string \<Rightarrow> error option) \<Rightarrow> string list \<Rightarrow> error list \<times> string list" where
  "attempt_all dial [] = ([], [])"
| "attempt_all dial (a # as) =
     (let (errors, good) = attempt_all dial as in
      case dial a of
        Some e \<Rightarrow> (e # errors, good)
      | None \<Rightarrow> (errors, a # good))"

text \<open>Modelled from the spec: \<open>ConnectionMaker.InitiateConnections\<close> itself; the targets
  are replaced or extended as \<open>replaceExisting\<close> says.\<close>

definition InitiateConnections ::
  "(string \<Rightarrow> error option) \<Rightarrow> string list \<Rightarrow> bool \<Rightarrow> mesh_Router \<Rightarrow> error list \<times> mesh_Router" where
  "InitiateConnections dial peers replace router =
     (let (errors, good) = attempt_all dial peers in
      (errors, router\<lparr>Targets := (if replace then [] else Targets router) @ good\<rparr>))"

section \<open>Peers and their configuration (ezmesh.go)\<close>

text \<open>\<open>const PROTOVERSION = 2\<close>\<close>

definition PROTOVERSION :: byte where
  "PROTOVERSION = 2"

text \<open>
  A message handler, \<open>func(p *Peer, src PeerName, message []byte) error\<close>. What a handler
  does besides returning is a change of the application's state, of type \<open>'u\<close>; it is
  handed the payload and the address of the local peer, and it is taken to leave the
  bytes of the payload, the peer and the transport as they are.
\<close>

type_synonym 'u handler = "ptr \<Rightarrow> PeerName \<Rightarrow> byte list \<Rightarrow> 'u \<Rightarrow> error option \<times> 'u"

text \<open>
  \<open>type Peer struct\<close>. \<open>TX\<close> and \<open>RX\<close> are interface values and \<open>Router\<close> is a pointer:
  all three are nil in the zero value \<open>Peer{}\<close>.
\<close>

record 'u Peer =
  OnMessage :: "'u handler option"
  OnBroadcast :: "'u handler option"
  TX :: "Gossip option"
  RX :: "receiver option"
  Router :: "ptr option"

definition Peer_zero :: "'u Peer" where
  "Peer_zero = \<lparr>Peer.OnMessage = None, Peer.OnBroadcast = None, TX = None, RX = None, Router = None\<rparr>"

text \<open>
  \<open>type Config struct\<close>. \<open>Name\<close> is a \<open>*PeerName\<close> that is only ever read: it is the
  value it points to, or \<open>None\<close> for nil. \<open>InitialPeers\<close> is a slice of pointers that
  \<open>Connect\<close> tests against nil.
\<close>

record 'u Config =
  Address :: string
  Port :: "16 word"
  Key :: "byte list"
  AutoConnect :: bool
  ConnLimit :: int
  NickName :: string
  Name :: "PeerName option"
  InitialPeers :: "TCPAddr option list option"
  OnMessage :: "'u handler option"
  OnBroadcast :: "'u handler option"

text \<open>
  The state of the program: the variables of type \<open>Config\<close> (the caller's, and the
  parameter of a running \<open>New\<close>), the allocated \<open>Peer\<close> structs, the transport's routers,
  and the application's own state.
\<close>

record 'u world =
  configs :: "'u Config list"
  peers :: "'u Peer list"
  routers :: "mesh_Router list"
  app :: 'u

text \<open>
  \<^verbatim>\<open>
  func (p *Peer) Connect(addrs []*net.TCPAddr) []error {
          if nil == addrs {
                  return nil
          }
          ips := make([]string, len(addrs))
          for i, p := range addrs {
                  ips[i] = p.String()
          }
          return p.Router.ConnectionMaker.InitiateConnections(ips, false)
  }
  \<close>
  The call goes through the pointer \<open>p.Router\<close>, which panics when it is nil.
\<close>

definition Connect ::
  "(string \<Rightarrow> error option) \<Rightarrow> ptr \<Rightarrow> TCPAddr option list option \<Rightarrow> 'u world
     \<Rightarrow> panic + (error list option \<times> 'u world)" where
  "Connect dial p addrs w =
     (case addrs of
        None \<Rightarrow> Inr (None, w)
      | Some as \<Rightarrow>
          (let ips = map TCPAddr_String as in
           case Router (peers w ! p) of
             None \<Rightarrow> Inl NilDereference
           | Some r \<Rightarrow>
               (let (errs, router) = InitiateConnections dial ips False (routers w ! r)
                in Inr (Some errs, w\<lparr>routers := (routers w)[r := router]\<rparr>))))"

text \<open>
  \<open>func New(config Config, l Logger) (*Peer, []error, error)\<close>, its body first. The
  parameter \<open>config\<close> is a variable of the function, at the address \<open>config\<close> of the
  store; the body assigns to its fields \<open>Name\<close> and \<open>ConnLimit\<close>.
  \<^verbatim>\<open>
  if "" == config.NickName {
          return nil, nil, fmt.Errorf("no nickname")
  }
  if nil == config.Name {
          pn := PeerNameFromStringHash(config.NickName)
          config.Name = &pn
  }
  if 0 > config.ConnLimit {
          config.ConnLimit = 0
  }
  \<close>
\<close>

definition New_Name ::
  "(byte list \<Rightarrow> 512 word) \<Rightarrow> ptr \<Rightarrow> 'u world \<Rightarrow> panic + 'u world" where
  "New_Name sha config w =
     (if Name (configs w ! config) = None then
        (case PeerNameFromStringHash sha (NickName (configs w ! config)) of
           Inl e \<Rightarrow> Inl e
         | Inr pn \<Rightarrow>
             Inr (w\<lparr>configs := (configs w)[config := (configs w ! config)\<lparr>Name := Some pn\<rparr>]\<rparr>))
      else Inr w)"

definition New_ConnLimit :: "ptr \<Rightarrow> 'u world \<Rightarrow> 'u world" where
  "New_ConnLimit config w =
     (if 0 > ConnLimit (configs w ! config)
      then w\<lparr>configs := (configs w)[config := (configs w ! config)\<lparr>ConnLimit := 0\<rparr>]\<rparr>
      else w)"

text \<open>
  \<^verbatim>\<open>
  peer := &Peer{}
  router := mesh.NewRouter(mesh.Config{...}, mesh.PeerName(*config.Name),
          config.NickName, mesh.NullOverlay{}, l)
  peer.Router = router
  peer.OnMessage = config.OnMessage
  peer.OnBroadcast = config.OnBroadcast
  rx := &receiver{peer}
  tx := router.NewGossip("defaultchannel", rx)
  peer.RX = rx
  peer.TX = tx
  if "" != config.Address {
          peer.Router.Start()
  }
  \<close>
  The result is the new peer's address.
\<close>

definition New_Peer :: "ptr \<Rightarrow> Logger \<Rightarrow> 'u world \<Rightarrow> panic + (ptr \<times> 'u world)" where
  "New_Peer config l w =
     (let c = configs w ! config;
          peer = length (peers w);
          w = w\<lparr>peers := peers w @ [Peer_zero]\<rparr>
      in case Name c of
           None \<Rightarrow> Inl NilDereference
         | Some name \<Rightarrow>
             (let router = length (routers w);
                  w = w\<lparr>routers := routers w @
                        [NewRouter
                           \<lparr>mesh_Host = Address c, mesh_Port = uint (Port c),
                            mesh_ProtocolMinVersion = PROTOVERSION, mesh_Password = Key c,
                            mesh_ConnLimit = ConnLimit c, mesh_PeerDiscovery = AutoConnect c,
                            mesh_TrustedSubnets = []\<rparr>
                           name (NickName c) l]\<rparr>;
                  w = w\<lparr>peers := (peers w)[peer := (peers w ! peer)\<lparr>Router := Some router\<rparr>]\<rparr>;
                  w = w\<lparr>peers := (peers w)[peer := (peers w ! peer)\<lparr>Peer.OnMessage := Config.OnMessage c\<rparr>]\<rparr>;
                  w = w\<lparr>peers := (peers w)[peer := (peers w ! peer)\<lparr>Peer.OnBroadcast := Config.OnBroadcast c\<rparr>]\<rparr>;
                  rx = \<lparr>receiver_p = peer\<rparr>;
                  w = w\<lparr>routers := (routers w)[router := NewGossip ''defaultchannel'' rx (routers w ! router)]\<rparr>;
                  tx = Gossip router ''defaultchannel'';
                  w = w\<lparr>peers := (peers w)[peer := (peers w ! peer)\<lparr>RX := Some rx\<rparr>]\<rparr>;
                  w = w\<lparr>peers := (peers w)[peer := (peers w ! peer)\<lparr>TX := Some tx\<rparr>]\<rparr>
              in if Address c \<noteq> [] then
                   (case Router (peers w ! peer) of
                      None \<Rightarrow> Inl NilDereference
                    | Some r \<Rightarrow> Inr (peer, w\<lparr>routers := (routers w)[r := Start (routers w ! r)]\<rparr>))
                 else Inr (peer, w)))"

text \<open>
  The rest of the body:
  \<^verbatim>\<open>
  errs := peer.Connect(config.InitialPeers)
  return peer, errs, nil
  \<close>
\<close>

definition New_body ::
  "(byte list \<Rightarrow> 512 word) \<Rightarrow> (string \<Rightarrow> error option) \<Rightarrow> ptr \<Rightarrow> Logger \<Rightarrow> 'u world
     \<Rightarrow> panic + ((ptr option \<times> error list option \<times> error option) \<times> 'u world)" where
  "New_body sha dial config l w =
     (if [] = NickName (configs w ! config) then
        Inr ((None, None, Some (Error ''no nickname'')), w)
      else
        (case New_Name sha config w of
           Inl e \<Rightarrow> Inl e
         | Inr w \<Rightarrow>
             (case New_Peer config l (New_ConnLimit config w) of
                Inl e \<Rightarrow> Inl e
              | Inr (peer, w) \<Rightarrow>
                  (case Connect dial peer (InitialPeers (configs w ! config)) w of
                     Inl e \<Rightarrow> Inl e
                   | Inr (errs, w) \<Rightarrow> Inr ((Some peer, errs, None), w)))))"

text \<open>
  A call \<open>New(config, l)\<close>: Go passes the struct by value, so the parameter is a new
  variable that starts as a copy of the argument.
\<close>

definition New ::
  "(byte list \<Rightarrow> 512 word) \<Rightarrow> (string \<Rightarrow> error option) \<Rightarrow> 'u Config \<Rightarrow> Logger \<Rightarrow> 'u world
     \<Rightarrow> panic + ((ptr option \<times> error list option \<times> error option) \<times> 'u world)" where
  "New sha dial arg l w =
     (let config = length (configs w);
          w = w\<lparr>configs := configs w @ [arg]\<rparr>
      in New_body sha dial config l w)"

text \<open>
  \<^verbatim>\<open>
  func (p *Peer) PeerNameFromNickName(nickname string) (name PeerName, ok bool) {
          for _, pd := range p.Router.Peers.Descriptions() {
                  if pd.NickName == nickname {
                          return PeerName(pd.Name), true
                  }
          }
          return PeerName(0), false
  }
  \<close>
\<close>

fun PeerNameFromNickName_loop :: "PeerDescription list \<Rightarrow> string \<Rightarrow> PeerName \<times> bool" where
  "PeerNameFromNickName_loop [] nickname = (0, False)"
| "PeerNameFromNickName_loop (pd # pds) nickname =
     (if pd_NickName pd = nickname then (pd_Name pd, True)
      else PeerNameFromNickName_loop pds nickname)"

definition PeerNameFromNickName :: "ptr \<Rightarrow> string \<Rightarrow> 'u world \<Rightarrow> panic + (PeerName \<times> bool)" where
  "PeerNameFromNickName p nickname w =
     (case Router (peers w ! p) of
        None \<Rightarrow> Inl NilDereference
      | Some r \<Rightarrow> Inr (PeerNameFromNickName_loop (Descriptions (routers w ! r)) nickname))"

text \<open>
  \<^verbatim>\<open>
  func (p *Peer) NickNameFromPeerName(name PeerName) (nickname string, ok bool) {
          for _, pd := range p.Router.Peers.Descriptions() {
                  if PeerName(pd.Name) == name {
                          return pd.NickName, true
                  }
          }
          return "", false
  }
  \<close>
\<close>

fun NickNameFromPeerName_loop :: "PeerDescription list \<Rightarrow> PeerName \<Rightarrow> string \<times> bool" where
  "NickNameFromPeerName_loop [] name = ([], False)"
| "NickNameFromPeerName_loop (pd # pds) name =
     (if pd_Name pd = name then (pd_NickName pd, True)
      else NickNameFromPeerName_loop pds name)"

definition NickNameFromPeerName :: "ptr \<Rightarrow> PeerName \<Rightarrow> 'u world \<Rightarrow> panic + (string \<times> bool)" where
  "NickNameFromPeerName p name w =
     (case Router (peers w ! p) of
        None \<Rightarrow> Inl NilDereference
      | Some r \<Rightarrow> Inr (NickNameFromPeerName_loop (Descriptions (routers w ! r)) name))"

section \<open>The dispatcher (receiver.go)\<close>

text \<open>
  \<^verbatim>\<open>
  func (r *receiver) handle(f func(*Peer, PeerName, []byte) error,
          n mesh.PeerName, msg []byte) error {
          if nil == f {
                  return nil
          }
          return f(r.p, PeerName(n), msg)
  }
  \<close>
\<close>

definition handle ::
  "receiver \<Rightarrow> 'u handler option \<Rightarrow> mesh_PeerName \<Rightarrow> byte list \<Rightarrow> 'u world
     \<Rightarrow> error option \<times> 'u world" where
  "handle r f n msg w =
     (case f of
        None \<Rightarrow> (None, w)
      | Some h \<Rightarrow> (let (err, u) = h (receiver_p r) n msg (app w) in (err, w\<lparr>app := u\<rparr>)))"

text \<open>
  \<^verbatim>\<open>
  func (r *receiver) OnGossipUnicast(src mesh.PeerName, msg []byte) error {
          return r.handle(r.p.OnMessage, src, msg)
  }
  \<close>
\<close>

definition OnGossipUnicast ::
  "receiver \<Rightarrow> mesh_PeerName \<Rightarrow> byte list \<Rightarrow> 'u world \<Rightarrow> error option \<times> 'u world" where
  "OnGossipUnicast r src msg w = handle r (Peer.OnMessage (peers w ! receiver_p r)) src msg w"

text \<open>
  \<^verbatim>\<open>
  func (r *receiver) OnGossipBroadcast(src mesh.PeerName, msg []byte) (mesh.GossipData, error) {
          return gd(msg), r.handle(r.p.OnBroadcast, src, msg)
  }
  \<close>
\<close>

definition OnGossipBroadcast ::
  "receiver \<Rightarrow> mesh_PeerName \<Rightarrow> byte list \<Rightarrow> 'u world
     \<Rightarrow> (GossipData \<times> error option) \<times> 'u world" where
  "OnGossipBroadcast r src msg w =
     (let (err, w) = handle r (Peer.OnBroadcast (peers w ! receiver_p r)) src msg w
      in ((GD msg, err), w))"

section \<open>What the operations are compared with\<close>

text \<open>The addresses of a list whose connection attempt succeeds.\<close>

definition connected_targets :: "(string \<Rightarrow> error option) \<Rightarrow> TCPAddr option list option \<Rightarrow> string list" where
  "connected_targets dial addrs =
     (case addrs of None \<Rightarrow> [] | Some as \<Rightarrow> filter (\<lambda>a. dial a = None) (map TCPAddr_String as))"

text \<open>The per-address connection-error list of a list of addresses: the error of every
  address whose attempt fails, in the order of the addresses; nil for the nil list.\<close>

definition connection_errors :: "(string \<Rightarrow> error option) \<Rightarrow> TCPAddr option list option \<Rightarrow> error list option" where
  "connection_errors dial addrs =
     (case addrs of None \<Rightarrow> None | Some as \<Rightarrow> Some (List.map_filter dial (map TCPAddr_String as)))"

text \<open>The value of the parameter \<open>config\<close> after the first assignments of \<open>New\<close>, where \<open>pn\<close> is
  the identity derived from the nickname.\<close>

definition prepared :: "'u Config \<Rightarrow> PeerName \<Rightarrow> 'u Config" where
  "prepared c pn = c\<lparr>Name := Some (case Name c of None \<Rightarrow> pn | Some n \<Rightarrow> n),
                      ConnLimit := max 0 (ConnLimit c)\<rparr>"

text \<open>The router that \<open>New\<close> has built when it reaches its call of \<open>Connect\<close>: created from the
  configuration, with the receive hook of the new peer on the one channel, listening if
  an address was configured.\<close>

definition built_router :: "'u Config \<Rightarrow> PeerName \<Rightarrow> Logger \<Rightarrow> ptr \<Rightarrow> mesh_Router" where
  "built_router c name l peer =
     \<lparr>Router_Config =
        \<lparr>mesh_Host = Address c, mesh_Port = uint (Port c),
         mesh_ProtocolMinVersion = PROTOVERSION, mesh_Password = Key c,
         mesh_ConnLimit = ConnLimit c, mesh_PeerDiscovery = AutoConnect c,
         mesh_TrustedSubnets = []\<rparr>,
      Ourself = name, Ourself_NickName = NickName c, Router_Logger = l,
      Channels = [(''defaultchannel'', \<lparr>receiver_p = peer\<rparr>)],
      Listening = (Address c \<noteq> []), Targets = [], Descriptions = []\<rparr>"

text \<open>The \<open>Peer\<close> struct that \<open>New\<close> returns a pointer to.\<close>

definition built_peer :: "'u Config \<Rightarrow> ptr \<Rightarrow> ptr \<Rightarrow> 'u Peer" where
  "built_peer c peer router =
     \<lparr>Peer.OnMessage = Config.OnMessage c, Peer.OnBroadcast = Config.OnBroadcast c,
      TX = Some (Gossip router ''defaultchannel''), RX = Some \<lparr>receiver_p = peer\<rparr>,
      Router = Some router\<rparr>"

text \<open>Concrete values, for instances of the theorems below: a configuration in the style of
  the README's example, an outcome of connection attempts, and two states.\<close>

definition example_config :: "string \<Rightarrow> PeerName option \<Rightarrow> int \<Rightarrow> nat Config" where
  "example_config nick name limit =
     \<lparr>Address = ''0.0.0.0'', Port = 3333, Key = [107, 105], AutoConnect = True,
      ConnLimit = limit, NickName = nick, Name = name,
      InitialPeers = Some [Some (TCPAddr ''10.0.0.1:3333''), Some (TCPAddr ''10.0.0.2:3333'')],
      OnMessage = Some (\<lambda>p src msg n. (None, Suc n)), OnBroadcast = None\<rparr>"

definition example_dial :: "string \<Rightarrow> error option" where
  "example_dial a = (if a = ''10.0.0.1:3333'' then Some (Error ''unreachable'') else None)"

definition empty_world :: "nat world" where
  "empty_world = \<lparr>configs = [], peers = [], routers = [], app = 0\<rparr>"

definition caller_world :: "nat world" where
  "caller_world = \<lparr>configs = [example_config ''agent'' None (- 1)], peers = [], routers = [], app = 0\<rparr>"

text \<open>A state with one peer as \<open>New\<close> builds it, whose router has a membership view of
  four entries, two of them under the same nickname and two under the same identity.\<close>

definition joined_world :: "nat world" where
  "joined_world =
     \<lparr>configs = [],
      peers = [built_peer (example_config ''agent'' None 64) 0 0],
      routers = [(built_router (example_config ''agent'' None 64) 7 (Logger 0) 0)
                   \<lparr>Descriptions :=
                      [\<lparr>pd_Name = 1, pd_NickName = ''alice''\<rparr>,
                       \<lparr>pd_Name = 2, pd_NickName = ''bob''\<rparr>,
                       \<lparr>pd_Name = 3, pd_NickName = ''alice''\<rparr>,
                       \<lparr>pd_Name = 2, pd_NickName = ''carol''\<rparr>]\<rparr>],
      app = 0\<rparr>"

text \<open>A handler that records its arguments in the application's state and returns a fixed
  outcome, and a state with one peer and the given handlers.\<close>

text \<open>A state whose one peer is the zero value \<open>Peer{}\<close>, which \<open>New\<close> did not build: its
  \<open>Router\<close> is nil.\<close>

definition zero_peer_world :: "nat world" where
  "zero_peer_world = \<lparr>configs = [], peers = [Peer_zero], routers = [], app = 0\<rparr>"

type_synonym call = "ptr \<times> PeerName \<times> byte list"

definition recording_handler :: "error option \<Rightarrow> call list handler" where
  "recording_handler outcome p src msg calls = (outcome, calls @ [(p, src, msg)])"

definition listening_world :: "call list handler option \<Rightarrow> call list handler option \<Rightarrow> call list world" where
  "listening_world onMessage onBroadcast =
     \<lparr>configs = [],
      peers = [\<lparr>Peer.OnMessage = onMessage, Peer.OnBroadcast = onBroadcast,
                TX = Some (Gossip 0 ''defaultchannel''), RX = Some \<lparr>receiver_p = 0\<rparr>,
                Router = Some 0\<rparr>],
      routers = [],
      app = []\<rparr>"

section \<open>Properties of the container\<close>

lemma copy_make_bytes: "copy (make_bytes (length g)) g = g"
  by (simp add: copy_def make_bytes_def)

lemma flatten_into_concat: "flatten_into r chunks = r @ concat chunks"
  by (induction chunks arbitrary: r) simp_all

text \<open>
  Claim C2. For arbitrary containers \<open>a\<close> and \<open>b\<close>, \<open>a.Merge(b).Encode()\<close> is a
  single-element sequence whose one chunk is \<open>a\<close>'s bytes followed, in order, by the
  concatenation of every chunk of \<open>b.Encode()\<close>; and \<open>Encode()\<close> on any container returns
  exactly one chunk, equal to the container's bytes. The merged-in value may be any
  implementation of the interface, a container of this package in particular.
\<close>

theorem Merge_Encode:
  "Encode (Merge a other) = [a @ concat (Encode other)]
   \<and> Encode (Merge a (GD b)) = [a @ b]
   \<and> Encode (GD a) = [a]"
  by (simp add: Merge_def Let_def copy_make_bytes flatten_into_concat gd_Encode_def)

section \<open>Properties of the naming scheme\<close>

lemma or_shift_add:
  fixes x :: byte and w :: "64 word"
  shows "ucast x OR push_bit 8 w = ucast x + push_bit 8 w"
proof -
  have "(ucast x :: 64 word) AND push_bit 8 w = 0"
    by (rule bit_eqI) (auto simp add: bit_simps dest: bit_imp_le_length)
  then show ?thesis
    by (simp add: disjunctive_add_eq_or)
qed

lemma unat_byte_lt: "unat (x :: byte) < 256"
  using unsigned_less [of x, where ?'a = nat] by simp

lemma flat_be:
  fixes b0 b1 b2 b3 b4 b5 b6 b7 :: byte
  shows "(ucast b7 OR push_bit 8 (ucast b6) OR push_bit 16 (ucast b5)
        OR push_bit 24 (ucast b4) OR push_bit 32 (ucast b3) OR push_bit 40 (ucast b2)
        OR push_bit 48 (ucast b1) OR push_bit 56 (ucast b0) :: 64 word)
     = ucast b7 OR push_bit 8 (ucast b6 OR push_bit 8 (ucast b5 OR push_bit 8 (ucast b4 OR push_bit 8 (ucast b3
        OR push_bit 8 (ucast b2 OR push_bit 8 (ucast b1 OR push_bit 8 (ucast b0)))))))"
  by (simp add: push_bit_or push_bit_push_bit ac_simps)

lemma horner_step:
  fixes x :: byte and w :: "64 word"
  assumes "unat w < 2 ^ 56"
  shows "unat (ucast x OR push_bit 8 w) = unat x + 256 * unat w"
proof -
  have x: "unat x < 256" by (rule unat_byte_lt)
  have ux: "unat (ucast x :: 64 word) = unat x"
    using unat_byte_lt [of x] by (simp add: unsigned_ucast_eq take_bit_nat_eq_self)
  have "256 * unat w < 2 ^ 64" using assms by simp
  then have pw: "unat (push_bit 8 w) = 256 * unat w"
    by (simp add: push_bit_eq_mult unat_word_ariths)
  have "unat x + 256 * unat w < 2 ^ 64" using x assms by simp
  then have "unat (ucast x + push_bit 8 w) = unat x + 256 * unat w"
    using ux pw by (simp add: unat_word_ariths)
  then show ?thesis by (simp add: or_shift_add)
qed

lemma horner_bound:
  fixes x :: byte and w :: "64 word"
  assumes "unat w < 2 ^ k" and "k \<le> 56"
  shows "unat (ucast x OR push_bit 8 w) < 2 ^ (k + 8)"
proof -
  have "(2::nat) ^ k \<le> 2 ^ 56" by (rule power_increasing [OF assms(2)]) simp
  with assms(1) have "unat w < 2 ^ 56" by (rule less_le_trans)
  then have eq: "unat (ucast x OR push_bit 8 w) = unat x + 256 * unat w"
    by (rule horner_step)
  have "unat x + 256 * unat w < 256 * (unat w + 1)"
    using unat_byte_lt [of x] by simp
  also have "\<dots> \<le> 256 * 2 ^ k"
    using assms(1) by (intro mult_le_mono2) simp
  finally show ?thesis using eq by (simp add: power_add)
qed

lemma ucast_byte_bound: "unat (ucast (x :: byte) :: 64 word) < 2 ^ 8"
  using unat_byte_lt [of x] by (simp add: unsigned_ucast_eq take_bit_nat_eq_self)

lemma ucast_byte_unat: "unat (ucast (x :: byte) :: 64 word) = unat x"
  using unat_byte_lt [of x] by (simp add: unsigned_ucast_eq take_bit_nat_eq_self)

lemma horner8:
  fixes b0 b1 b2 b3 b4 b5 b6 b7 :: byte
  shows "unat (ucast b7 OR push_bit 8 (ucast b6 OR push_bit 8 (ucast b5 OR push_bit 8 (ucast b4
        OR push_bit 8 (ucast b3 OR push_bit 8 (ucast b2 OR push_bit 8 (ucast b1
        OR push_bit 8 (ucast b0))))))) :: 64 word)
     = unat b7 + 256 * (unat b6 + 256 * (unat b5 + 256 * (unat b4 + 256 * (unat b3
        + 256 * (unat b2 + 256 * (unat b1 + 256 * unat b0))))))"
proof -
  let ?w0 = "ucast b0 :: 64 word"
  let ?w1 = "ucast b1 OR push_bit 8 ?w0"
  let ?w2 = "ucast b2 OR push_bit 8 ?w1"
  let ?w3 = "ucast b3 OR push_bit 8 ?w2"
  let ?w4 = "ucast b4 OR push_bit 8 ?w3"
  let ?w5 = "ucast b5 OR push_bit 8 ?w4"
  let ?w6 = "ucast b6 OR push_bit 8 ?w5"
  have l0: "unat ?w0 < 2 ^ 8" by (rule ucast_byte_bound)
  have l1: "unat ?w1 < 2 ^ 16" using horner_bound [OF l0, of b1] by simp
  have l2: "unat ?w2 < 2 ^ 24" using horner_bound [OF l1, of b2] by simp
  have l3: "unat ?w3 < 2 ^ 32" using horner_bound [OF l2, of b3] by simp
  have l4: "unat ?w4 < 2 ^ 40" using horner_bound [OF l3, of b4] by simp
  have l5: "unat ?w5 < 2 ^ 48" using horner_bound [OF l4, of b5] by simp
  have l6: "unat ?w6 < 2 ^ 56" using horner_bound [OF l5, of b6] by simp
  have e1: "unat ?w1 = unat b1 + 256 * unat b0"
    using horner_step [of ?w0 b1] l0 by (simp add: ucast_byte_unat)
  have e2: "unat ?w2 = unat b2 + 256 * unat ?w1"
    using horner_step [of ?w1 b2] l1 by simp
  have e3: "unat ?w3 = unat b3 + 256 * unat ?w2"
    using horner_step [of ?w2 b3] l2 by simp
  have e4: "unat ?w4 = unat b4 + 256 * unat ?w3"
    using horner_step [of ?w3 b4] l3 by simp
  have e5: "unat ?w5 = unat b5 + 256 * unat ?w4"
    using horner_step [of ?w4 b5] l4 by simp
  have e6: "unat ?w6 = unat b6 + 256 * unat ?w5"
    using horner_step [of ?w5 b6] l5 by simp
  have e7: "unat (ucast b7 OR push_bit 8 ?w6) = unat b7 + 256 * unat ?w6"
    using horner_step [of ?w6 b7] l6 by simp
  show ?thesis
    unfolding e7 e6 e5 e4 e3 e2 e1 ..
qed

lemma sum_lessThan_8:
  "(\<Sum>i<8. f i) = f 0 + f 1 + f 2 + f 3 + f 4 + f 5 + f 6 + f (7::nat) + (0::nat)"
  by (simp add: numeral_eq_Suc lessThan_Suc)

lemma BigEndian_Uint64_value:
  assumes "8 \<le> length b"
  shows "\<exists>n. BigEndian_Uint64 b = Inr n \<and> unat n = (\<Sum>i<8. unat (b ! i) * 256 ^ (7 - i))"
proof -
  have "unat (ucast (b ! 7) OR push_bit 8 (ucast (b ! 6)) OR push_bit 16 (ucast (b ! 5))
        OR push_bit 24 (ucast (b ! 4)) OR push_bit 32 (ucast (b ! 3)) OR push_bit 40 (ucast (b ! 2))
        OR push_bit 48 (ucast (b ! 1)) OR push_bit 56 (ucast (b ! 0)) :: 64 word)
      = (\<Sum>i<8. unat (b ! i) * 256 ^ (7 - i))"
    unfolding flat_be horner8 sum_lessThan_8 by simp
  then show ?thesis using assms by (simp add: BigEndian_Uint64_def)
qed

lemma LittleEndian_Uint64_value:
  assumes "8 \<le> length b"
  shows "\<exists>n. LittleEndian_Uint64 b = Inr n \<and> unat n = (\<Sum>i<8. unat (b ! i) * 256 ^ i)"
proof -
  have "unat (ucast (b ! 0) OR push_bit 8 (ucast (b ! 1)) OR push_bit 16 (ucast (b ! 2))
        OR push_bit 24 (ucast (b ! 3)) OR push_bit 32 (ucast (b ! 4)) OR push_bit 40 (ucast (b ! 5))
        OR push_bit 48 (ucast (b ! 6)) OR push_bit 56 (ucast (b ! 7)) :: 64 word)
      = (\<Sum>i<8. unat (b ! i) * 256 ^ i)"
    unfolding flat_be horner8 sum_lessThan_8 by simp
  then show ?thesis using assms by (simp add: LittleEndian_Uint64_def)
qed

lemma length_Sum512: "length (Sum512 sha m) = 64"
  by (simp add: Sum512_def)

lemma PeerNameFromStringHash_value:
  "\<exists>n. PeerNameFromStringHash sha s = Inr n
     \<and> unat n = (\<Sum>i<8. unat (Sum512 sha (bytes_of s) ! i) * 256 ^ i)"
proof -
  let ?h = "Sum512 sha (bytes_of s)"
  have "8 \<le> length (take 8 ?h)" by (simp add: length_Sum512)
  from LittleEndian_Uint64_value [OF this] obtain n where
    n: "LittleEndian_Uint64 (take 8 ?h) = Inr n"
       "unat n = (\<Sum>i<8. unat (take 8 ?h ! i) * 256 ^ i)" by blast
  have "(\<Sum>i<8. unat (take 8 ?h ! i) * 256 ^ i) = (\<Sum>i<8. unat (?h ! i) * 256 ^ i)"
    by (rule sum.cong) simp_all
  with n show ?thesis by (simp add: PeerNameFromStringHash_def)
qed

text \<open>
  Claim C1. For every byte sequence \<open>h\<close>, \<open>PeerNameFromHardwareAddr(h)\<close> dispatches on
  the length: with exactly 8 bytes it returns, with no error, the bytes read as a
  big-endian 64-bit integer; with fewer than 8 bytes it returns what \<open>PeerNameFromMACAddr\<close>
  returns on the textual rendering \<open>h.String()\<close>; with more than 8 bytes it returns, with
  no error, \<open>PeerNameFromStringHash\<close> of that rendering. No branch panics.
\<close>

theorem PeerNameFromHardwareAddr_dispatch:
  "(length h = 8 \<longrightarrow>
      (\<exists>n. PeerNameFromHardwareAddr sha h = Inr (n, None)
         \<and> unat n = (\<Sum>i<8. unat (h ! i) * 256 ^ (7 - i))))
   \<and> (length h < 8 \<longrightarrow>
      PeerNameFromHardwareAddr sha h = Inr (PeerNameFromMACAddr (HardwareAddr_String h)))
   \<and> (8 < length h \<longrightarrow>
      (\<exists>n. PeerNameFromStringHash sha (HardwareAddr_String h) = Inr n
         \<and> PeerNameFromHardwareAddr sha h = Inr (n, None)))"
proof (intro conjI impI)
  assume len: "length h = 8"
  then have "8 \<le> length h" by simp
  from BigEndian_Uint64_value [OF this] obtain n where
    "BigEndian_Uint64 h = Inr n" "unat n = (\<Sum>i<8. unat (h ! i) * 256 ^ (7 - i))" by blast
  with len show "\<exists>n. PeerNameFromHardwareAddr sha h = Inr (n, None)
         \<and> unat n = (\<Sum>i<8. unat (h ! i) * 256 ^ (7 - i))"
    by (simp add: PeerNameFromHardwareAddr_def)
next
  assume "length h < 8"
  then show "PeerNameFromHardwareAddr sha h = Inr (PeerNameFromMACAddr (HardwareAddr_String h))"
    by (simp add: PeerNameFromHardwareAddr_def)
next
  assume len: "8 < length h"
  from PeerNameFromStringHash_value [of sha "HardwareAddr_String h"] obtain n where
    "PeerNameFromStringHash sha (HardwareAddr_String h) = Inr n" by blast
  with len show "\<exists>n. PeerNameFromStringHash sha (HardwareAddr_String h) = Inr n
         \<and> PeerNameFromHardwareAddr sha h = Inr (n, None)"
    by (simp add: PeerNameFromHardwareAddr_def)
qed


theorem PeerNameFromHardwareAddr_dispatch_witness:
  "(\<exists>n. PeerNameFromHardwareAddr (\<lambda>m. 0) [1, 2, 3, 4, 5, 6, 7, 8] = Inr (n, None)
        \<and> unat n = 72623859790382856)
   \<and> PeerNameFromHardwareAddr (\<lambda>m. 0) [1, 2, 3, 4, 5, 0xab]
        = Inr (PeerNameFromMACAddr ''01:02:03:04:05:ab'')
   \<and> (\<exists>n. PeerNameFromStringHash (\<lambda>m. 0) (HardwareAddr_String [1, 2, 3, 4, 5, 6, 7, 8, 9]) = Inr n
        \<and> PeerNameFromHardwareAddr (\<lambda>m. 0) [1, 2, 3, 4, 5, 6, 7, 8, 9] = Inr (n, None))"
proof -
  have r: "HardwareAddr_String [1, 2, 3, 4, 5, 0xab] = ''01:02:03:04:05:ab''"
    by code_simp
  have a: "(\<Sum>i<8. unat ([1, 2, 3, 4, 5, 6, 7, 8 :: byte] ! i) * 256 ^ (7 - i)) = 72623859790382856"
    unfolding sum_lessThan_8 by simp
  show ?thesis
    using PeerNameFromHardwareAddr_dispatch [of "[1, 2, 3, 4, 5, 6, 7, 8]" "\<lambda>m. 0"]
      PeerNameFromHardwareAddr_dispatch [of "[1, 2, 3, 4, 5, 0xab]" "\<lambda>m. 0"]
      PeerNameFromHardwareAddr_dispatch [of "[1, 2, 3, 4, 5, 6, 7, 8, 9]" "\<lambda>m. 0"]
    unfolding a r by simp
qed

section \<open>Parsing and rendering identities\<close>

lemma split_colon_nonempty: "split_colon x \<noteq> []"
  by (induction x) (auto split: list.splits)

lemma join_split_colon: "join_colon (split_colon x) = x"
proof (induction x)
  case Nil
  then show ?case by simp
next
  case (Cons c cs)
  obtain g gs where s: "split_colon cs = g # gs"
    using split_colon_nonempty [of cs] by (cases "split_colon cs") auto
  with Cons show ?case by (cases gs) auto
qed

lemma find_elision_empty_group:
  "find_elision x = Some lr \<Longrightarrow> [] \<in> set (tl (split_colon x))"
proof (induction x arbitrary: lr rule: find_elision.induct)
  case (1 c d cs)
  then show ?case
    by (cases "split_colon cs") (auto split: if_splits list.splits)
qed simp_all

lemma octet_text_nonempty: "octet_text g \<Longrightarrow> g \<noteq> []"
  by (auto simp: octet_text_def)

lemma six_octets_no_elision:
  assumes "list_all octet_text (split_colon x)"
  shows "find_elision x = None"
proof (rule ccontr)
  assume "find_elision x \<noteq> None"
  then obtain lr where "find_elision x = Some lr" by auto
  then have "[] \<in> set (tl (split_colon x))" by (rule find_elision_empty_group)
  then have "[] \<in> set (split_colon x)" by (rule list.set_sel(2) [rotated]) (simp add: split_colon_nonempty)
  with assms have "octet_text []" by (simp add: list_all_iff)
  then show False by (simp add: octet_text_def)
qed

lemma hexDigit_nth:
  assumes "v < 16"
  shows "of_char (hexDigit ! v) = (if v < 10 then 48 + v else 87 + v :: nat)"
proof -
  from assms consider "v = 0" | "v = 1" | "v = 2" | "v = 3" | "v = 4" | "v = 5" | "v = 6" | "v = 7"
    | "v = 8" | "v = 9" | "v = 10" | "v = 11" | "v = 12" | "v = 13" | "v = 14" | "v = 15"
    by (auto simp: numeral_eq_Suc less_Suc_eq)
  then show ?thesis
    by cases (simp_all add: hexDigit_def)
qed

lemma hex_value_lower:
  assumes "lower_hex_digit c"
  shows "\<exists>v<16. hex_value c = Some v \<and> hexDigit ! v = c"
proof -
  let ?n = "of_char c :: nat"
  have c: "char_of ?n = c" by simp
  from assms consider "48 \<le> ?n" "?n \<le> 57" | "97 \<le> ?n" "?n \<le> 102"
    unfolding lower_hex_digit_def Let_def by blast
  then show ?thesis
  proof cases
    case 1
    then have "hex_value c = Some (?n - 48)" "?n - 48 < 16"
      by (simp_all add: hex_value_def)
    moreover have "?n - 48 < 10" "48 + (?n - 48) = ?n" using 1 by arith+
    then have "hexDigit ! (?n - 48) = c"
      using hexDigit_nth [of "?n - 48"] by (intro of_char_eqI [where ?'a = nat]) simp
    ultimately show ?thesis by auto
  next
    case 2
    then have "hex_value c = Some (?n - 87)" "?n - 87 < 16"
      by (simp_all add: hex_value_def)
    moreover have "\<not> ?n - 87 < 10" "?n - 87 < 16" "87 + (?n - 87) = ?n" using 2 by arith+
    then have "hexDigit ! (?n - 87) = c"
      using hexDigit_nth [of "?n - 87"] by (intro of_char_eqI [where ?'a = nat]) simp
    ultimately show ?thesis by auto
  qed
qed

lemma nibbles:
  fixes h l :: nat
  assumes "h < 16" "l < 16"
  shows "unat (drop_bit 4 (word_of_nat (16 * h + l) :: byte)) = h"
    and "unat ((word_of_nat (16 * h + l) :: byte) AND 0xF) = l"
proof -
  have lt: "16 * h + l < 256" using assms by simp
  have u: "unat (word_of_nat (16 * h + l) :: byte) = 16 * h + l"
    using lt by (simp only: unat_of_nat) simp
  have "drop_bit 4 (16 * h + l) = h"
    using assms by (simp add: drop_bit_eq_div)
  then show "unat (drop_bit 4 (word_of_nat (16 * h + l) :: byte)) = h"
    by (simp only: unat_drop_bit_eq u)
  have f: "unat (0xF :: byte) = 15" by simp
  have "(16 * h + l) AND 15 = take_bit 4 (16 * h + l)"
    by (simp add: take_bit_eq_mask mask_eq_exp_minus_1)
  also have "\<dots> = l" using assms by (simp add: take_bit_eq_mod)
  finally show "unat ((word_of_nat (16 * h + l) :: byte) AND 0xF) = l"
    by (simp only: unsigned_and_eq u f)
qed

lemma parse_octet_render:
  assumes "octet_text g"
  shows "\<exists>b. parse_octet g = Some b \<and> render_byte b = canonical_group g"
proof -
  from assms consider c where "g = [c]" "lower_hex_digit c"
    | c d where "g = [c, d]" "lower_hex_digit c" "lower_hex_digit d"
    by (cases g rule: parse_octet.cases) (auto simp: octet_text_def)
  then show ?thesis
  proof cases
    case 1
    from hex_value_lower [OF 1(2)] obtain v where
      v: "v < 16" "hex_value c = Some v" "hexDigit ! v = c" by blast
    have z: "hexDigit ! 0 = CHR ''0''" by (simp add: hexDigit_def)
    show ?thesis
      using nibbles [of 0 v] v 1(1) z by (simp add: render_byte_def)
  next
    case 2
    from hex_value_lower [OF 2(2)] obtain h where
      h: "h < 16" "hex_value c = Some h" "hexDigit ! h = c" by blast
    from hex_value_lower [OF 2(3)] obtain l where
      l: "l < 16" "hex_value d = Some l" "hexDigit ! l = d" by blast
    show ?thesis
      using nibbles [OF h(1) l(1)] h l 2(1) by (simp add: render_byte_def)
  qed
qed

lemma parse_octets_render:
  assumes "list_all octet_text gs"
  shows "\<exists>bs. parse_octets gs = Some bs \<and> length bs = length gs
           \<and> map render_byte bs = map canonical_group gs"
  using assms
proof (induction gs)
  case Nil
  then show ?case by simp
next
  case (Cons g gs)
  then obtain bs where bs: "parse_octets gs = Some bs" "length bs = length gs"
    "map render_byte bs = map canonical_group gs" by auto
  from Cons.prems have "octet_text g" by simp
  from parse_octet_render [OF this] obtain b where
    "parse_octet g = Some b" "render_byte b = canonical_group g" by blast
  with bs show ?case by simp
qed

lemma HardwareAddr_loop_Suc:
  "HardwareAddr_loop (Suc i) a buf = buf @ concat (map (\<lambda>b. CHR '':'' # render_byte b) a)"
  by (induction a arbitrary: i buf) (simp_all add: render_byte_def)

lemma join_colon_Cons:
  "join_colon (g # gs) = g @ concat (map (\<lambda>g. CHR '':'' # g) gs)"
  by (induction gs arbitrary: g) simp_all

lemma HardwareAddr_String_join:
  "HardwareAddr_String a = join_colon (map render_byte a)"
proof (cases a)
  case Nil
  then show ?thesis by (simp add: HardwareAddr_String_def)
next
  case (Cons b bs)
  have "HardwareAddr_loop 0 (b # bs) [] = render_byte b @ concat (map (\<lambda>b. CHR '':'' # render_byte b) bs)"
    by (simp add: HardwareAddr_loop_Suc) (simp add: render_byte_def)
  then show ?thesis
    using Cons by (simp add: HardwareAddr_String_def join_colon_Cons comp_def)
qed

lemma intmac_macint:
  fixes a b c d e f :: byte
  shows "intmac (macint [a, b, c, d, e, f]) = [a, b, c, d, e, f]"
proof -
  let ?n = "macint [a, b, c, d, e, f]"
  have n: "?n = push_bit 40 (ucast a) OR push_bit 32 (ucast b) OR push_bit 24 (ucast c)
     OR push_bit 16 (ucast d) OR push_bit 8 (ucast e) OR ucast f"
    by (simp add: macint_def push_bit_or push_bit_push_bit ac_simps)
  have up: "[0..<6] = [0, 1, 2, 3, 4, 5]" by (simp add: upt_rec)
  have "ucast (drop_bit 40 ?n) = a" "ucast (drop_bit 32 ?n) = b" "ucast (drop_bit 24 ?n) = c"
    "ucast (drop_bit 16 ?n) = d" "ucast (drop_bit 8 ?n) = e" "ucast ?n = f"
    unfolding n by (rule bit_word_eqI; auto simp add: bit_simps dest: bit_imp_le_length)+
  then show ?thesis
    by (simp add: intmac_def up)
qed

lemma canonical_group_two: "length g = 2 \<Longrightarrow> canonical_group g = g"
  by (cases g rule: canonical_group.cases) simp_all

lemma canonicalForm_fixed:
  assumes "list_all (\<lambda>g. length g = 2) (split_colon x)"
  shows "canonicalForm x = x"
proof -
  have "map canonical_group (split_colon x) = split_colon x"
    using assms by (intro map_idI) (simp add: list_all_iff canonical_group_two)
  then show ?thesis by (simp add: canonicalForm_def join_split_colon)
qed

text \<open>
  Claim C6. For every well-formed colon-separated text \<open>x\<close> of exactly six lowercase hex
  octets, parsing it with \<open>PeerNameFromMACAddr\<close> (equivalently \<open>UnStringPeerName\<close>)
  succeeds, and \<open>String()\<close> of the result is the canonical form of \<open>x\<close>; where every
  group of \<open>x\<close> has its two digits already, that is \<open>x\<close> itself: \<open>String\<close> is a left
  inverse of the parser on such texts.
\<close>

theorem PeerName_String_left_inverse:
  assumes "six_octets x"
  shows "\<exists>n. PeerNameFromMACAddr x = (n, None) \<and> UnStringPeerName x = (n, None)
           \<and> PeerName_String n = canonicalForm x
           \<and> (list_all (\<lambda>g. length g = 2) (split_colon x) \<longrightarrow> PeerName_String n = x)"
proof -
  from assms have len: "length (split_colon x) = 6" and ok: "list_all octet_text (split_colon x)"
    by (simp_all add: six_octets_def)
  from parse_octets_render [OF ok] obtain bs where
    bs: "parse_octets (split_colon x) = Some bs" "length bs = length (split_colon x)"
      "map render_byte bs = map canonical_group (split_colon x)" by blast
  from bs(2) len have "length bs = 6" by simp
  then obtain a b c d e f where abc: "bs = [a, b, c, d, e, f]"
    by (auto simp: length_Suc_conv numeral_eq_Suc)
  have parse: "PeerNameFromString x = (macint bs, None)"
    using six_octets_no_elision [OF ok] bs(1) \<open>length bs = 6\<close>
    by (simp add: PeerNameFromString_def)
  have "PeerName_String (macint bs) = join_colon (map render_byte bs)"
    unfolding PeerName_String_def mesh_PeerName_String_def abc intmac_macint
    by (rule HardwareAddr_String_join)
  then have str: "PeerName_String (macint bs) = canonicalForm x"
    by (simp add: bs(3) canonicalForm_def)
  show ?thesis
    using parse str canonicalForm_fixed [of x]
    by (intro exI [of _ "macint bs"]) (simp add: PeerNameFromMACAddr_def UnStringPeerName_def)
qed

theorem PeerName_String_left_inverse_witness:
  "(\<exists>n. PeerNameFromMACAddr ''01:02:03:04:05:ab'' = (n, None)
        \<and> UnStringPeerName ''01:02:03:04:05:ab'' = (n, None)
        \<and> PeerName_String n = ''01:02:03:04:05:ab'')
   \<and> (\<exists>n. PeerNameFromMACAddr ''1:2:3:4:5:ab'' = (n, None)
        \<and> PeerName_String n = ''01:02:03:04:05:ab'')"
proof -
  have a: "six_octets ''01:02:03:04:05:ab''" by code_simp
  have b: "list_all (\<lambda>g. length g = 2) (split_colon ''01:02:03:04:05:ab'')" by code_simp
  have c: "six_octets ''1:2:3:4:5:ab''" by code_simp
  have d: "canonicalForm ''1:2:3:4:5:ab'' = ''01:02:03:04:05:ab''" by code_simp
  show ?thesis
    using PeerName_String_left_inverse [OF a] PeerName_String_left_inverse [OF c] b d
    by auto
qed

section \<open>Properties of construction\<close>

lemma attempt_all_eq:
  "attempt_all dial as = (List.map_filter dial as, filter (\<lambda>a. dial a = None) as)"
  by (induction as) (auto simp: List.map_filter_simps split: option.splits)

lemma InitiateConnections_eq:
  "InitiateConnections dial ips replace router =
     (List.map_filter dial ips,
      router\<lparr>Targets := (if replace then [] else Targets router) @ filter (\<lambda>a. dial a = None) ips\<rparr>)"
  by (simp add: InitiateConnections_def attempt_all_eq)

lemma New_Name_param:
  assumes "PeerNameFromStringHash sha (NickName c) = Inr pn"
  shows "New_Name sha (length cs) (w\<lparr>configs := cs @ [c]\<rparr>)
     = Inr (w\<lparr>configs := cs @ [c\<lparr>Name := Some (case Name c of None \<Rightarrow> pn | Some n \<Rightarrow> n)\<rparr>]\<rparr>)"
  using assms by (cases "Name c") (simp_all add: New_Name_def)

lemma New_ConnLimit_param:
  "New_ConnLimit (length cs) (w\<lparr>configs := cs @ [c]\<rparr>)
     = w\<lparr>configs := cs @ [c\<lparr>ConnLimit := max 0 (ConnLimit c)\<rparr>]\<rparr>"
  by (simp add: New_ConnLimit_def max_def)

lemma New_Peer_param:
  assumes "Name c = Some name"
  shows "New_Peer (length (configs w)) l (w\<lparr>configs := configs w @ [c]\<rparr>)
     = Inr (length (peers w),
         w\<lparr>configs := configs w @ [c],
           peers := peers w @ [built_peer c (length (peers w)) (length (routers w))],
           routers := routers w @ [built_router c name l (length (peers w))]\<rparr>)"
  using assms
  by (simp add: New_Peer_def Let_def Peer_zero_def NewRouter_def NewGossip_def Start_def
      built_router_def built_peer_def)

lemma Connect_eq:
  assumes "Router (peers w ! p) = Some r"
  shows "Connect dial p addrs w =
     Inr (connection_errors dial addrs,
          (case addrs of None \<Rightarrow> w
           | Some as \<Rightarrow> w\<lparr>routers := (routers w)[r := (routers w ! r)
               \<lparr>Targets := Targets (routers w ! r) @ connected_targets dial addrs\<rparr>]\<rparr>))"
  using assms
  by (cases addrs)
    (simp_all add: Connect_def Let_def connection_errors_def connected_targets_def InitiateConnections_eq)

lemma New_eq:
  assumes nick: "NickName c \<noteq> []"
    and pn: "PeerNameFromStringHash sha (NickName c) = Inr pn"
    and name: "name = (case Name c of None \<Rightarrow> pn | Some n \<Rightarrow> n)"
  shows "New sha dial c l w =
     Inr ((Some (length (peers w)), connection_errors dial (InitialPeers c), None),
          w\<lparr>configs := configs w @ [prepared c pn],
            peers := peers w @ [built_peer (prepared c pn) (length (peers w)) (length (routers w))],
            routers := routers w @
              [(built_router (prepared c pn) name l (length (peers w)))
                 \<lparr>Targets := connected_targets dial (InitialPeers c)\<rparr>]\<rparr>)"
proof -
  let ?c1 = "c\<lparr>Name := Some name\<rparr>"
  let ?c2 = "prepared c pn"
  let ?w0 = "w\<lparr>configs := configs w @ [c]\<rparr>"
  let ?w2 = "w\<lparr>configs := configs w @ [?c2]\<rparr>"
  let ?w3 = "w\<lparr>configs := configs w @ [?c2],
           peers := peers w @ [built_peer ?c2 (length (peers w)) (length (routers w))],
           routers := routers w @ [built_router ?c2 name l (length (peers w))]\<rparr>"
  have c2: "?c1\<lparr>ConnLimit := max 0 (ConnLimit ?c1)\<rparr> = ?c2"
    by (simp add: prepared_def name)
  have s1: "New_Name sha (length (configs w)) ?w0 = Inr (w\<lparr>configs := configs w @ [?c1]\<rparr>)"
    using New_Name_param [OF pn, of "configs w" w] by (simp add: name)
  have s2: "New_ConnLimit (length (configs w)) (w\<lparr>configs := configs w @ [?c1]\<rparr>) = ?w2"
    unfolding New_ConnLimit_param c2 ..
  have n2: "Name ?c2 = Some name" by (simp add: prepared_def name)
  have s3: "New_Peer (length (configs w)) l ?w2 = Inr (length (peers w), ?w3)"
    using New_Peer_param [OF n2, of w l] by simp
  have r3: "Router (peers ?w3 ! length (peers w)) = Some (length (routers w))"
    by (simp add: built_peer_def)
  have ip: "InitialPeers ?c2 = InitialPeers c" by (simp add: prepared_def)
  have s4: "Connect dial (length (peers w)) (InitialPeers c) ?w3 =
     Inr (connection_errors dial (InitialPeers c),
          w\<lparr>configs := configs w @ [?c2],
            peers := peers w @ [built_peer ?c2 (length (peers w)) (length (routers w))],
            routers := routers w @
              [(built_router ?c2 name l (length (peers w)))
                 \<lparr>Targets := connected_targets dial (InitialPeers c)\<rparr>]\<rparr>)"
    unfolding Connect_eq [OF r3]
    by (cases "InitialPeers c") (simp_all add: connected_targets_def built_router_def)
  have nk: "NickName (configs ?w0 ! length (configs w)) \<noteq> []" using nick by simp
  show ?thesis
    unfolding New_def Let_def New_body_def
    using nk by (simp add: s1 s2 s3 ip s4)
qed

lemma New_no_nickname:
  assumes "NickName c = []"
  shows "New sha dial c l w =
     Inr ((None, None, Some (Error ''no nickname'')), w\<lparr>configs := configs w @ [c]\<rparr>)"
  using assms by (simp add: New_def New_body_def)

text \<open>
  Claim C3. \<open>New(config, l)\<close> returns a non-nil fatal error if and only if
  \<open>config.NickName\<close> is the empty string; in that case it returns a nil \<open>Peer\<close> and a nil
  error list; in every other case the fatal error is nil and it returns a newly
  constructed \<open>Peer\<close>, with the handlers of the configuration and a router, together with
  the per-address connection-error list of the initial peers. It never panics.
\<close>

theorem New_fatal_error_iff:
  "\<exists>peer errs err w'.
     New sha dial c l w = Inr ((peer, errs, err), w')
     \<and> (err \<noteq> None \<longleftrightarrow> NickName c = [])
     \<and> (NickName c = [] \<longrightarrow> peer = None \<and> errs = None)
     \<and> (NickName c \<noteq> [] \<longrightarrow>
          peer = Some (length (peers w)) \<and> length (peers w') = Suc (length (peers w))
          \<and> Router (peers w' ! length (peers w)) \<noteq> None
          \<and> Peer.OnMessage (peers w' ! length (peers w)) = Config.OnMessage c
          \<and> Peer.OnBroadcast (peers w' ! length (peers w)) = Config.OnBroadcast c
          \<and> errs = connection_errors dial (InitialPeers c))"
proof (cases "NickName c = []")
  case True
  then show ?thesis by (simp add: New_no_nickname)
next
  case False
  from PeerNameFromStringHash_value [of sha "NickName c"] obtain pn where
    pn: "PeerNameFromStringHash sha (NickName c) = Inr pn" by blast
  show ?thesis
    using False by (simp add: New_eq [OF False pn refl] built_peer_def prepared_def)
qed

theorem New_fatal_error_iff_witness:
  "(\<exists>err w'. New (\<lambda>m. 0) example_dial (example_config [] None 64) (Logger 0) empty_world
        = Inr ((None, None, err), w') \<and> err \<noteq> None)
   \<and> (\<exists>w'. New (\<lambda>m. 0) example_dial (example_config ''agent'' None 64) (Logger 0) empty_world
        = Inr ((Some 0, Some [Error ''unreachable''], None), w'))"
proof -
  have e: "connection_errors example_dial (InitialPeers (example_config ''agent'' None 64))
      = Some [Error ''unreachable'']"
    by (simp add: connection_errors_def example_config_def example_dial_def List.map_filter_simps)
  have n: "NickName (example_config [] None 64 :: nat Config) = []"
    "NickName (example_config ''agent'' None 64 :: nat Config) \<noteq> []"
    "peers empty_world = []"
    by (simp_all add: example_config_def empty_world_def)
  show ?thesis
    using New_fatal_error_iff [of "\<lambda>m. 0" example_dial "example_config [] None 64" "Logger 0" empty_world]
      New_fatal_error_iff [of "\<lambda>m. 0" example_dial "example_config ''agent'' None 64" "Logger 0" empty_world]
    unfolding e by (auto simp: n)
qed

text \<open>
  Claim C7. For every configuration with a non-empty nickname, the \<open>Peer\<close> that \<open>New\<close>
  constructs has a router whose identity is, when the \<open>Name\<close> field is nil,
  \<open>PeerNameFromStringHash(config.NickName)\<close>, that is the first 8 bytes of the SHA-512 hash
  of the nickname read as a little-endian integer, and otherwise the \<open>Name\<close> given.
\<close>

theorem New_identity:
  assumes "NickName c \<noteq> []"
  shows "\<exists>p r errs w' n.
     New sha dial c l w = Inr ((Some p, errs, None), w')
     \<and> Router (peers w' ! p) = Some r \<and> Ourself (routers w' ! r) = n
     \<and> (case Name c of
           None \<Rightarrow> PeerNameFromStringHash sha (NickName c) = Inr n
                  \<and> unat n = (\<Sum>i<8. unat (Sum512 sha (bytes_of (NickName c)) ! i) * 256 ^ i)
         | Some given \<Rightarrow> n = given)"
proof -
  from PeerNameFromStringHash_value [of sha "NickName c"] obtain pn where
    pn: "PeerNameFromStringHash sha (NickName c) = Inr pn"
      "unat pn = (\<Sum>i<8. unat (Sum512 sha (bytes_of (NickName c)) ! i) * 256 ^ i)" by blast
  show ?thesis
    using pn by (cases "Name c") (simp_all add: New_eq [OF assms pn(1) refl] built_peer_def built_router_def)
qed

theorem New_identity_witness:
  "(\<exists>p r errs w'.
      New (\<lambda>m. 0) example_dial (example_config ''agent'' (Some 0x0102030405) 64) (Logger 0) empty_world
        = Inr ((Some p, errs, None), w')
      \<and> Router (peers w' ! p) = Some r \<and> Ourself (routers w' ! r) = 0x0102030405)
   \<and> (\<exists>p r errs w'.
      New (\<lambda>m. 0) example_dial (example_config ''agent'' None 64) (Logger 0) empty_world
        = Inr ((Some p, errs, None), w')
      \<and> Router (peers w' ! p) = Some r
      \<and> PeerNameFromStringHash (\<lambda>m. 0) ''agent'' = Inr (Ourself (routers w' ! r)))"
proof -
  have n: "NickName (example_config ''agent'' (Some 0x0102030405) 64 :: nat Config) = ''agent''"
    "NickName (example_config ''agent'' None 64 :: nat Config) = ''agent''"
    "Name (example_config ''agent'' (Some 0x0102030405) 64 :: nat Config) = Some 0x0102030405"
    "Name (example_config ''agent'' None 64 :: nat Config) = None"
    by (simp_all add: example_config_def)
  show ?thesis
    using New_identity [of "example_config ''agent'' (Some 0x0102030405) 64" "\<lambda>m. 0" example_dial "Logger 0" empty_world]
      New_identity [of "example_config ''agent'' None 64" "\<lambda>m. 0" example_dial "Logger 0" empty_world]
    unfolding n by simp blast
qed

text \<open>
  Claim C10. \<open>New\<close> receives its \<open>Config\<close> by value: when the argument is the caller's
  variable at address \<open>a\<close>, that variable, like every \<open>Config\<close> variable that existed
  before the call, has the same value after the call, although \<open>New\<close> has overwritten, in
  its own parameter variable, the field \<open>Name\<close> (when nil) and the field \<open>ConnLimit\<close> (when
  negative, clamped to 0).
\<close>

theorem New_config_by_value:
  assumes "a < length (configs w)"
  shows "\<exists>res w'.
     New sha dial (configs w ! a) l w = Inr (res, w')
     \<and> configs w' ! a = configs w ! a
     \<and> take (length (configs w)) (configs w') = configs w
     \<and> (NickName (configs w ! a) \<noteq> [] \<longrightarrow>
          Name (configs w' ! length (configs w)) \<noteq> None
          \<and> (Name (configs w ! a) \<noteq> None \<longrightarrow>
                Name (configs w' ! length (configs w)) = Name (configs w ! a))
          \<and> ConnLimit (configs w' ! length (configs w)) = max 0 (ConnLimit (configs w ! a)))"
proof (cases "NickName (configs w ! a) = []")
  case True
  then show ?thesis using assms by (simp add: New_no_nickname nth_append)
next
  case False
  from PeerNameFromStringHash_value [of sha "NickName (configs w ! a)"] obtain pn where
    pn: "PeerNameFromStringHash sha (NickName (configs w ! a)) = Inr pn" by blast
  show ?thesis
    using False assms by (auto simp add: New_eq [OF False pn refl] nth_append prepared_def)
qed

theorem New_config_by_value_witness:
  "\<exists>res w'.
     New (\<lambda>m. 0) example_dial (configs caller_world ! 0) (Logger 0) caller_world = Inr (res, w')
     \<and> Name (configs w' ! 0) = None \<and> ConnLimit (configs w' ! 0) = - 1
     \<and> Name (configs w' ! 1) \<noteq> None \<and> ConnLimit (configs w' ! 1) = 0"
proof -
  have n: "length (configs caller_world) = 1"
    "configs caller_world ! 0 = example_config ''agent'' None (- 1)"
    "NickName (example_config ''agent'' None (- 1) :: nat Config) \<noteq> []"
    "Name (example_config ''agent'' None (- 1) :: nat Config) = None"
    "ConnLimit (example_config ''agent'' None (- 1) :: nat Config) = - 1"
    by (simp_all add: caller_world_def example_config_def)
  show ?thesis
    using New_config_by_value [of 0 caller_world "\<lambda>m. 0" example_dial "Logger 0"]
    by (auto simp: n)
qed

section \<open>Properties of Connect and of the lookups\<close>

text \<open>A \<open>Peer\<close> that \<open>New\<close> did not build, with a nil \<open>Router\<close>, makes \<open>Connect\<close> panic on
  every list but the nil one.\<close>

lemma Connect_zero_Peer:
  "Router (peers w ! p) = None \<Longrightarrow> Connect dial p (Some as) w = Inl NilDereference"
  by (simp add: Connect_def)

text \<open>
  Claim C8, as amended. The claim is worded for every \<open>Peer\<close>, and fails on one whose
  \<open>Router\<close> is nil (see the counterexample below). What holds: calling \<open>p.Connect\<close> with
  the nil address list is, for every \<open>p\<close>, a no-op that returns the nil error list; calling
  it with an empty address list is, for every \<open>p\<close> whose \<open>Router\<close> is set (as \<open>New\<close> sets
  it in every \<open>Peer\<close> it constructs), a no-op that returns an empty error list.
\<close>

theorem Connect_no_addresses:
  "Connect dial p None w = Inr (None, w)
   \<and> (Router (peers w ! p) \<noteq> None \<longrightarrow> Connect dial p (Some []) w = Inr (Some [], w))"
proof (intro conjI impI)
  show "Connect dial p None w = Inr (None, w)"
    by (simp add: Connect_def)
next
  assume "Router (peers w ! p) \<noteq> None"
  then obtain r where r: "Router (peers w ! p) = Some r" by auto
  have "(routers w ! r)\<lparr>Targets := Targets (routers w ! r)\<rparr> = routers w ! r" by simp
  then show "Connect dial p (Some []) w = Inr (Some [], w)"
    by (simp add: Connect_eq [OF r] connection_errors_def connected_targets_def
        List.map_filter_simps)
qed

theorem Connect_no_addresses_witness:
  "Connect example_dial 0 None joined_world = Inr (None, joined_world)
   \<and> Connect example_dial 0 (Some []) joined_world = Inr (Some [], joined_world)"
proof -
  have "Router (peers joined_world ! 0) \<noteq> None"
    by (simp add: joined_world_def built_peer_def)
  then show ?thesis
    using Connect_no_addresses [of example_dial 0 joined_world] by simp
qed

text \<open>
  Claim C8 as it is worded, for every \<open>Peer\<close>, is false: on the zero value \<open>Peer{}\<close> the
  call \<open>p.Connect([]*net.TCPAddr{})\<close> passes the test against nil, runs the loop no times
  and goes through the nil pointer \<open>p.Router\<close>. It panics; it does not return an empty
  error list.
\<close>

theorem Connect_empty_list_counterexample:
  "Router (peers zero_peer_world ! 0) = None
   \<and> Connect example_dial 0 (Some []) zero_peer_world = Inl NilDereference
   \<and> Connect example_dial 0 (Some []) zero_peer_world \<noteq> Inr (Some [], zero_peer_world)"
proof -
  have r: "Router (peers zero_peer_world ! 0) = None"
    by (simp add: zero_peer_world_def Peer_zero_def)
  from Connect_zero_Peer [OF r] have "Connect example_dial 0 (Some []) zero_peer_world = Inl NilDereference" .
  with r show ?thesis by simp
qed

lemma PeerNameFromNickName_loop_absent:
  "nickname \<notin> pd_NickName ` set ds \<Longrightarrow> PeerNameFromNickName_loop ds nickname = (0, False)"
  by (induction ds) auto

lemma PeerNameFromNickName_loop_first:
  "nickname \<notin> pd_NickName ` set pre \<Longrightarrow> pd_NickName pd = nickname \<Longrightarrow>
   PeerNameFromNickName_loop (pre @ pd # post) nickname = (pd_Name pd, True)"
  by (induction pre) auto

lemma NickNameFromPeerName_loop_absent:
  "name \<notin> pd_Name ` set ds \<Longrightarrow> NickNameFromPeerName_loop ds name = ([], False)"
  by (induction ds) auto

lemma NickNameFromPeerName_loop_first:
  "name \<notin> pd_Name ` set pre \<Longrightarrow> pd_Name pd = name \<Longrightarrow>
   NickNameFromPeerName_loop (pre @ pd # post) name = (pd_NickName pd, True)"
  by (induction pre) auto

text \<open>
  Claim C9. On a peer with its router, a lookup that finds no match returns the zero
  value and \<open>ok == false\<close>: \<open>(PeerName(0), false)\<close> for a nickname absent from the
  membership view, \<open>("", false)\<close> for an identity absent from it. When a match exists,
  the first matching entry in the order of the view is returned with \<open>ok == true\<close>.
\<close>

theorem lookups_first_match:
  assumes "Router (peers w ! p) = Some r"
  shows "(nickname \<notin> pd_NickName ` set (Descriptions (routers w ! r)) \<longrightarrow>
            PeerNameFromNickName p nickname w = Inr (0, False))
     \<and> (name \<notin> pd_Name ` set (Descriptions (routers w ! r)) \<longrightarrow>
            NickNameFromPeerName p name w = Inr ([], False))
     \<and> (Descriptions (routers w ! r) = pre @ pd # post
          \<and> nickname \<notin> pd_NickName ` set pre \<and> pd_NickName pd = nickname \<longrightarrow>
            PeerNameFromNickName p nickname w = Inr (pd_Name pd, True))
     \<and> (Descriptions (routers w ! r) = pre' @ pd' # post'
          \<and> name \<notin> pd_Name ` set pre' \<and> pd_Name pd' = name \<longrightarrow>
            NickNameFromPeerName p name w = Inr (pd_NickName pd', True))"
  using assms
  by (simp add: PeerNameFromNickName_def NickNameFromPeerName_def
      PeerNameFromNickName_loop_absent PeerNameFromNickName_loop_first
      NickNameFromPeerName_loop_absent NickNameFromPeerName_loop_first)

theorem lookups_first_match_witness:
  "PeerNameFromNickName 0 ''dave'' joined_world = Inr (0, False)
   \<and> NickNameFromPeerName 0 9 joined_world = Inr ([], False)
   \<and> PeerNameFromNickName 0 ''alice'' joined_world = Inr (1, True)
   \<and> NickNameFromPeerName 0 2 joined_world = Inr (''bob'', True)"
proof -
  have r: "Router (peers joined_world ! 0) = Some 0"
    by (simp add: joined_world_def built_peer_def)
  have d: "Descriptions (routers joined_world ! 0) =
      [] @ \<lparr>pd_Name = 1, pd_NickName = ''alice''\<rparr> #
        [\<lparr>pd_Name = 2, pd_NickName = ''bob''\<rparr>, \<lparr>pd_Name = 3, pd_NickName = ''alice''\<rparr>,
         \<lparr>pd_Name = 2, pd_NickName = ''carol''\<rparr>]"
    "Descriptions (routers joined_world ! 0) =
      [\<lparr>pd_Name = 1, pd_NickName = ''alice''\<rparr>] @ \<lparr>pd_Name = 2, pd_NickName = ''bob''\<rparr> #
        [\<lparr>pd_Name = 3, pd_NickName = ''alice''\<rparr>, \<lparr>pd_Name = 2, pd_NickName = ''carol''\<rparr>]"
    by (simp_all add: joined_world_def)
  have a: "''dave'' \<notin> pd_NickName ` set (Descriptions (routers joined_world ! 0))"
    "9 \<notin> pd_Name ` set (Descriptions (routers joined_world ! 0))"
    by (simp_all add: joined_world_def)
  show ?thesis
    using lookups_first_match [OF r, where nickname = "''dave''" and name = 9]
      lookups_first_match [OF r, where nickname = "''alice''" and name = 2 and pre = "[]"
        and pd = "\<lparr>pd_Name = 1, pd_NickName = ''alice''\<rparr>"
        and pre' = "[\<lparr>pd_Name = 1, pd_NickName = ''alice''\<rparr>]"
        and pd' = "\<lparr>pd_Name = 2, pd_NickName = ''bob''\<rparr>"] a d
    by simp
qed

section \<open>Properties of the dispatcher\<close>

text \<open>
  Claim C4. For every inbound broadcast \<open>(src, msg)\<close>, \<open>OnGossipBroadcast\<close> returns a
  container whose \<open>Encode()\<close> is exactly the received payload, whether or not a broadcast
  handler is registered and whatever the handler returns; the error it returns is the
  handler's outcome, and nil when no handler is registered (then nothing is invoked: the
  state is unchanged).
\<close>

theorem OnGossipBroadcast_container:
  "\<exists>g err w'.
     OnGossipBroadcast r src msg w = ((g, err), w') \<and> Encode g = [msg]
     \<and> (case Peer.OnBroadcast (peers w ! receiver_p r) of
           None \<Rightarrow> err = None \<and> w' = w
         | Some H \<Rightarrow> err = fst (H (receiver_p r) src msg (app w))
                    \<and> w' = w\<lparr>app := snd (H (receiver_p r) src msg (app w))\<rparr>)"
  by (simp add: OnGossipBroadcast_def handle_def gd_Encode_def split_beta
      split: option.split)

theorem OnGossipBroadcast_container_witness:
  "(\<exists>g. OnGossipBroadcast \<lparr>receiver_p = 0\<rparr> 7 [104, 105] (listening_world None None)
        = ((g, None), listening_world None None) \<and> Encode g = [[104, 105]])
   \<and> (\<exists>g. OnGossipBroadcast \<lparr>receiver_p = 0\<rparr> 7 [104, 105]
          (listening_world None (Some (recording_handler (Some (Error ''refused'')))))
        = ((g, Some (Error ''refused'')),
           (listening_world None (Some (recording_handler (Some (Error ''refused'')))))
             \<lparr>app := [(0, 7, [104, 105])]\<rparr>)
        \<and> Encode g = [[104, 105]])"
  using OnGossipBroadcast_container [of "\<lparr>receiver_p = 0\<rparr>" 7 "[104, 105]" "listening_world None None"]
    OnGossipBroadcast_container [of "\<lparr>receiver_p = 0\<rparr>" 7 "[104, 105]"
      "listening_world None (Some (recording_handler (Some (Error ''refused''))))"]
  by (auto simp: listening_world_def recording_handler_def)

text \<open>
  Claim C5. For every inbound unicast \<open>(src, msg)\<close>: with no handler registered
  (\<open>OnMessage\<close> is nil), \<open>OnGossipUnicast\<close> returns nil and invokes nothing (the state is
  unchanged); with a handler \<open>H\<close> registered, it returns the outcome of \<open>H\<close> on the local
  peer, the sender and the payload, and the state is the one that this single invocation
  of \<open>H\<close> leaves.
\<close>

theorem OnGossipUnicast_dispatch:
  "(Peer.OnMessage (peers w ! receiver_p r) = None \<longrightarrow> OnGossipUnicast r src msg w = (None, w))
   \<and> (Peer.OnMessage (peers w ! receiver_p r) = Some H \<longrightarrow>
        OnGossipUnicast r src msg w =
          (fst (H (receiver_p r) src msg (app w)),
           w\<lparr>app := snd (H (receiver_p r) src msg (app w))\<rparr>))"
  by (simp add: OnGossipUnicast_def handle_def split_beta)

theorem OnGossipUnicast_dispatch_witness:
  "OnGossipUnicast \<lparr>receiver_p = 0\<rparr> 7 [104, 105] (listening_world None None)
     = (None, listening_world None None)
   \<and> OnGossipUnicast \<lparr>receiver_p = 0\<rparr> 7 [104, 105]
       (listening_world (Some (recording_handler (Some (Error ''refused'')))) None)
     = (Some (Error ''refused''),
        (listening_world (Some (recording_handler (Some (Error ''refused'')))) None)
          \<lparr>app := [(0, 7, [104, 105])]\<rparr>)"
  using OnGossipUnicast_dispatch [where w = "listening_world None None"
      and r = "\<lparr>receiver_p = 0\<rparr>" and src = 7 and msg = "[104, 105]"]
    OnGossipUnicast_dispatch [where
      w = "listening_world (Some (recording_handler (Some (Error ''refused'')))) None"
      and r = "\<lparr>receiver_p = 0\<rparr>" and H = "recording_handler (Some (Error ''refused''))"
      and src = 7 and msg = "[104, 105]"]
  by (simp add: listening_world_def recording_handler_def)

end
